theory Spec2Isabelle
  imports Main "HOL-Library.Word" "HOL-Library.AList"
begin

unbundle bit_operations_syntax

section \<open>Python values\<close>

text \<open>
  The values that travel through \<^verbatim>\<open>CloudRunPy.py\<close>: what \<^verbatim>\<open>json\<close> decoding yields and what
  a caller may hand over as token, module or data. A \<^verbatim>\<open>dict\<close> is an association
  list in insertion order, its keys strings (the keys of a JSON object). A string is a
  list of code points below 256; floats are outside the model.
\<close>

datatype pyval =
    PNone
  | PBool bool
  | PInt int
  | PStr string
  | PList "pyval list"
  | PDict "(string \<times> pyval) list"

type_synonym pydict = "(string \<times> pyval) list"

subsection \<open>The builtin \<^verbatim>\<open>str\<close>\<close>

fun digits :: "nat \<Rightarrow> string" where
  "digits n =
     (if n < 10 then [''0123456789'' ! n]
      else digits (n div 10) @ [''0123456789'' ! (n mod 10)])"

declare digits.simps [simp del]

definition str_int :: "int \<Rightarrow> string" where
  "str_int i = (if i < 0 then ''-'' @ digits (nat (- i)) else digits (nat i))"

definition hex2 :: "nat \<Rightarrow> string" where
  "hex2 n = [''0123456789abcdef'' ! (n div 16), ''0123456789abcdef'' ! (n mod 16)]"

text \<open>
  \<^verbatim>\<open>repr\<close> of a string: single quotes, unless the string holds a single quote and no
  double quote; the quote and the backslash are escaped, tab, newline and carriage
  return are written \<^verbatim>\<open>\t\<close>, \<^verbatim>\<open>\n\<close>, \<^verbatim>\<open>\r\<close>, and every other code point that is not
  printable (below 0x20, 0x7f to 0xa0, 0xad) is written \<^verbatim>\<open>\xNN\<close>.
\<close>

definition repr_char :: "char \<Rightarrow> char \<Rightarrow> string" where
  "repr_char q c =
     (let n = (of_char c :: nat) in
      if c = q \<or> c = CHR 0x5C then [CHR 0x5C, c]
      else if c = CHR 0x09 then [CHR 0x5C, CHR ''t'']
      else if c = CHR 0x0A then [CHR 0x5C, CHR ''n'']
      else if c = CHR 0x0D then [CHR 0x5C, CHR ''r'']
      else if n < 32 \<or> n = 127 then [CHR 0x5C, CHR ''x''] @ hex2 n
      else if n < 127 then [c]
      else if n \<le> 160 \<or> n = 173 then [CHR 0x5C, CHR ''x''] @ hex2 n
      else [c])"

definition repr_str :: "string \<Rightarrow> string" where
  "repr_str s =
     (let q = (if CHR 0x27 \<in> set s \<and> CHR 0x22 \<notin> set s then CHR 0x22 else CHR 0x27)
      in [q] @ concat (map (repr_char q) s) @ [q])"

fun join :: "string \<Rightarrow> string list \<Rightarrow> string" where
  "join sep [] = []"
| "join sep [x] = x"
| "join sep (x # y # ys) = x @ sep @ join sep (y # ys)"

fun py_repr :: "pyval \<Rightarrow> string" where
  "py_repr PNone = ''None''"
| "py_repr (PBool b) = (if b then ''True'' else ''False'')"
| "py_repr (PInt i) = str_int i"
| "py_repr (PStr s) = repr_str s"
| "py_repr (PList xs) = ''['' @ join '', '' (map py_repr xs) @ '']''"
| "py_repr (PDict d) =
     ''{'' @ join '', '' (map (\<lambda>(k, v). repr_str k @ '': '' @ py_repr v) d) @ ''}''"

text \<open>\<^verbatim>\<open>str(x)\<close>: a string is itself, everything else is its \<^verbatim>\<open>repr\<close>.\<close>

fun py_str :: "pyval \<Rightarrow> string" where
  "py_str (PStr s) = s"
| "py_str v = py_repr v"

subsection \<open>Exceptions\<close>

text \<open>
  Every exception the module or the library calls it makes can raise.
  \<open>RequestException\<close> stands for whatever \<^verbatim>\<open>requests.post\<close> itself raises
  (connection refused, timeout, TLS failure), tagged with the class name.
\<close>

datatype exn =
    RequestException string
  | HTTPError int
  | JSONDecodeError
  | CloudRunError string
  | ValueError string
  | KeyError string
  | TypeError
  | UnsupportedOperation
  | UnicodeDecodeError
  | OSError

subsection \<open>Membership and subscription\<close>

fun is_substr :: "string \<Rightarrow> string \<Rightarrow> bool" where
  "is_substr p [] = (p = [])"
| "is_substr p (c # cs) = (take (length p) (c # cs) = p \<or> is_substr p cs)"

text \<open>
  \<^verbatim>\<open>key in x\<close> for a string key: a key of a dict, an element of a list, a substring of a
  string; the other values are not iterable.
\<close>

fun py_contains :: "pyval \<Rightarrow> string \<Rightarrow> exn + bool" where
  "py_contains (PDict d) k = Inr (k \<in> fst ` set d)"
| "py_contains (PList xs) k = Inr (PStr k \<in> set xs)"
| "py_contains (PStr s) k = Inr (is_substr k s)"
| "py_contains v k = Inl TypeError"

text \<open>\<^verbatim>\<open>x[key]\<close> for a string key: only a dict takes one, and raises KeyError without it.\<close>

fun py_getitem :: "pyval \<Rightarrow> string \<Rightarrow> exn + pyval" where
  "py_getitem (PDict d) k = (case map_of d k of None \<Rightarrow> Inl (KeyError k) | Some v \<Rightarrow> Inr v)"
| "py_getitem v k = Inl TypeError"

section \<open>The transport\<close>

text \<open>
  \<^verbatim>\<open>requests.post\<close> is the one way out of the process. A call is the record of its
  arguments; the answer is an exception or a response object, of which the module reads
  the status code, the headers and the decoded body (\<open>None\<close> when the body is not
  JSON).
\<close>

record post_call =
  p_url :: string
  p_json :: pyval
  p_verify :: pyval
  p_timeout :: pyval
  p_auth :: pyval
  p_proxies :: pyval

record http_response =
  r_status_code :: int
  r_headers :: "(string \<times> string) list"
  r_json :: "pyval option"

text \<open>\<^verbatim>\<open>Response.raise_for_status\<close> of the library raises for the client and server error
  classes, 400 to 599, and for no other status.\<close>

definition raise_for_status :: "http_response \<Rightarrow> exn + unit" where
  "raise_for_status r =
     (if 400 \<le> r_status_code r \<and> r_status_code r < 600
      then Inl (HTTPError (r_status_code r)) else Inr ())"

definition json_of :: "http_response \<Rightarrow> exn + pyval" where
  "json_of r = (case r_json r of None \<Rightarrow> Inl JSONDecodeError | Some v \<Rightarrow> Inr v)"

section \<open>The store\<close>

text \<open>
  Objects that are mutated through references live in a store. A \<^verbatim>\<open>Request\<close> instance
  holds what \<^verbatim>\<open>__init__\<close> assigns, \<open>module\<close>, and a binding of \<open>data\<close> of its own only
  if a caller has assigned one (\<open>inst_data\<close>); the class body \<^verbatim>\<open>data = {}\<close> makes one
  dict, once, at \<open>Request_data\<close>. The class of an instance (\<open>cls\<close>) is \<^verbatim>\<open>Request\<close> itself
  or a class a caller has derived from it, which inherits every method and the class
  attribute \<open>data\<close>.

  A file handle delivers bytes in binary mode and text in text mode, from its position
  to the end; \<open>FailingStream\<close> is a binary handle whose device fails when it is read.
  \<open>buffered\<close> tells the handles \<^verbatim>\<open>open\<close> returns by default from the raw ones of
  \<^verbatim>\<open>buffering=0\<close>, which exist in binary mode only.
\<close>

type_synonym ref = nat

type_synonym byte = "8 word"

datatype pyclass = Request_class | Request_subclass string

record request =
  cls :: pyclass
  module :: pyval
  inst_data :: "ref option"

datatype stream = ByteStream "byte list" | TextStream string | FailingStream

record pyfile =
  stream :: stream
  readable :: bool
  buffered :: bool
  closed :: bool

record world =
  dicts :: "ref \<Rightarrow> pydict"
  objs :: "ref \<Rightarrow> request"
  fresh :: ref
  files :: "ref \<Rightarrow> pyfile"
  net :: "post_call \<Rightarrow> exn + http_response"
  posts :: "post_call list"

definition Request_data :: ref where
  "Request_data = 0"

text \<open>\<^verbatim>\<open>self.data\<close>: the instance's own binding if it has one, the class attribute otherwise.\<close>

definition data_ref :: "world \<Rightarrow> ref \<Rightarrow> ref" where
  "data_ref w self = (case inst_data (objs w self) of Some a \<Rightarrow> a | None \<Rightarrow> Request_data)"

definition data_of :: "world \<Rightarrow> ref \<Rightarrow> pydict" where
  "data_of w self = dicts w (data_ref w self)"

section \<open>class Connection\<close>

record connection =
  url :: pyval
  port :: pyval
  token :: pyval
  verifySSL :: pyval
  timeout :: pyval
  auth :: pyval
  proxies :: pyval

definition Connection_init :: "pyval \<Rightarrow> pyval \<Rightarrow> pyval \<Rightarrow> connection" where
  "Connection_init u p t =
     \<lparr>url = u, port = p, token = t, verifySSL = PBool True, timeout = PInt 60,
      auth = PNone, proxies = PNone\<rparr>"

record response =
  raw :: http_response
  response :: pyval
  status_code :: int
  headers :: "(string \<times> string) list"

definition Response_init :: "http_response \<Rightarrow> exn + response" where
  "Response_init r =
     (case json_of r of
        Inl e \<Rightarrow> Inl e
      | Inr j \<Rightarrow> Inr \<lparr>raw = r, response = j, status_code = r_status_code r,
                      headers = r_headers r\<rparr>)"

definition post_args :: "connection \<Rightarrow> pyval \<Rightarrow> pyval \<Rightarrow> post_call" where
  "post_args self handler payload =
     \<lparr>p_url = py_str (url self) @ '':'' @ py_str (port self) @ ''/'' @ py_str handler @ ''/'',
      p_json = payload, p_verify = verifySSL self, p_timeout = timeout self,
      p_auth = auth self, p_proxies = proxies self\<rparr>"

text \<open>The text of the CloudRunError: both subscriptions are evaluated left to right.\<close>

definition error_text :: "pyval \<Rightarrow> exn + string" where
  "error_text answer =
     (case py_getitem answer ''error'' of Inl e \<Rightarrow> Inl e | Inr err \<Rightarrow>
     (case py_getitem err ''code'' of Inl e \<Rightarrow> Inl e | Inr c \<Rightarrow>
     (case py_getitem answer ''error'' of Inl e \<Rightarrow> Inl e | Inr err' \<Rightarrow>
     (case py_getitem err' ''message'' of Inl e \<Rightarrow> Inl e | Inr m \<Rightarrow>
        Inr (''Error '' @ py_str c @ '': '' @ py_str m)))))"

definition Connection_request ::
  "connection \<Rightarrow> pyval \<Rightarrow> pyval \<Rightarrow> world \<Rightarrow> (exn + http_response) \<times> world" where
  "Connection_request self handler payload w =
     (let call = post_args self handler payload;
          w' = w\<lparr>posts := posts w @ [call]\<rparr>
      in case net w call of Inl e \<Rightarrow> (Inl e, w') | Inr req \<Rightarrow>
        (case raise_for_status req of Inl e \<Rightarrow> (Inl e, w') | Inr _ \<Rightarrow>
        (case json_of req of Inl e \<Rightarrow> (Inl e, w') | Inr answer \<Rightarrow>
        (case py_contains answer ''error'' of
           Inl e \<Rightarrow> (Inl e, w')
         | Inr found \<Rightarrow>
             if found then
               (case error_text answer of
                  Inl e \<Rightarrow> (Inl e, w')
                | Inr text \<Rightarrow> (Inl (CloudRunError text), w'))
             else (Inr req, w')))))"

definition sendRequest ::
  "connection \<Rightarrow> pyval \<Rightarrow> pyval \<Rightarrow> world \<Rightarrow> (exn + response) \<times> world" where
  "sendRequest self module' data w =
     (let payload = PDict [(''token'', token self), (''module'', module'), (''data'', data)]
      in case Connection_request self (PStr ''request'') payload w of
           (Inl e, w') \<Rightarrow> (Inl e, w')
         | (Inr req, w') \<Rightarrow> (Response_init req, w'))"

text \<open>
  What a caller can pass as \<^verbatim>\<open>request\<close>: a reference to an instance of \<^verbatim>\<open>Request\<close> or of a
  class derived from it (\<open>Inst\<close>), or any other value (\<open>Val\<close>). \<^verbatim>\<open>isinstance(x, Request)\<close>
  holds for every \<open>Inst\<close>; \<^verbatim>\<open>type(x) is Request\<close>, the test of the code, holds only when
  the class of the instance is \<^verbatim>\<open>Request\<close> itself.
\<close>

datatype pyobj = Inst ref | Val pyval

definition sendPreparedRequest ::
  "connection \<Rightarrow> pyobj \<Rightarrow> world \<Rightarrow> (exn + response) \<times> world" where
  "sendPreparedRequest self request w =
     (case request of
        Inst r \<Rightarrow>
          if cls (objs w r) = Request_class
          then sendRequest self (module (objs w r)) (PDict (data_of w r)) w
          else (Inl (ValueError ''request has to be a Request object''), w)
      | Val v \<Rightarrow> (Inl (ValueError ''request has to be a Request object''), w))"

definition sendCustomRequest ::
  "connection \<Rightarrow> pyval \<Rightarrow> pyval \<Rightarrow> world \<Rightarrow> (exn + response) \<times> world" where
  "sendCustomRequest self handler data w =
     (let payload = PDict [(''token'', token self), (''data'', data)]
      in case Connection_request self handler payload w of
           (Inl e, w') \<Rightarrow> (Inl e, w')
         | (Inr req, w') \<Rightarrow> (Response_init req, w'))"

section \<open>The library's base64\<close>

text \<open>
  \<^verbatim>\<open>base64.standard_b64encode\<close> on bytes: three bytes become four letters of the standard
  alphabet; a last group of one or two bytes is padded with \<^verbatim>\<open>=\<close>. The letters are
  bytes (ASCII codes); anything but bytes is a TypeError.
\<close>

definition b64_alphabet :: string where
  "b64_alphabet = ''ABCDEFGHIJKLMNOPQRSTUVWXYZabcdefghijklmnopqrstuvwxyz0123456789+/''"

definition b64_letter :: "byte \<Rightarrow> byte" where
  "b64_letter i = of_char (b64_alphabet ! unat i)"

fun b64encode_bytes :: "byte list \<Rightarrow> byte list" where
  "b64encode_bytes [] = []"
| "b64encode_bytes [a] =
     [b64_letter (drop_bit 2 a), b64_letter (push_bit 4 (a AND 3)), 61, 61]"
| "b64encode_bytes [a, b] =
     [b64_letter (drop_bit 2 a),
      b64_letter (push_bit 4 (a AND 3) OR drop_bit 4 b),
      b64_letter (push_bit 2 (b AND 15)), 61]"
| "b64encode_bytes (a # b # c # rest) =
     [b64_letter (drop_bit 2 a),
      b64_letter (push_bit 4 (a AND 3) OR drop_bit 4 b),
      b64_letter (push_bit 2 (b AND 15) OR drop_bit 6 c),
      b64_letter (c AND 63)] @ b64encode_bytes rest"

datatype readval = Bytes "byte list" | Text string

definition standard_b64encode :: "readval \<Rightarrow> exn + byte list" where
  "standard_b64encode s =
     (case s of Bytes bs \<Rightarrow> Inr (b64encode_bytes bs) | Text t \<Rightarrow> Inl TypeError)"

text \<open>\<^verbatim>\<open>bytes.decode('ascii')\<close>: a byte above 127 is a UnicodeDecodeError.\<close>

definition ascii_char :: "byte \<Rightarrow> char" where
  "ascii_char b = char_of (unat b)"

definition decode_ascii :: "byte list \<Rightarrow> exn + string" where
  "decode_ascii bs =
     (if \<exists>b \<in> set bs. 128 \<le> unat b then Inl UnicodeDecodeError
      else Inr (map ascii_char bs))"

subsection \<open>File handles\<close>

text \<open>
  \<^verbatim>\<open>file.read()\<close> raises ValueError on a closed handle, UnsupportedOperation on one not
  opened for reading and OSError when the device fails; otherwise it returns what is
  left and leaves the position at the end. Which of the first two comes first, and the
  text of the ValueError, depend on the kind of handle: a text handle and a raw binary
  one test for closed first, a buffered binary handle that was not opened for reading
  has no \<^verbatim>\<open>read\<close> at all, closed or not. \<^verbatim>\<open>file.close()\<close> closes, also a handle that is
  closed already.
\<close>

definition read_checks :: "pyfile \<Rightarrow> exn option" where
  "read_checks f =
     (case stream f of
        TextStream _ \<Rightarrow>
          if closed f then Some (ValueError ''I/O operation on closed file.'')
          else if \<not> readable f then Some UnsupportedOperation
          else None
      | _ \<Rightarrow>
          if buffered f then
            (if \<not> readable f then Some UnsupportedOperation
             else if closed f then Some (ValueError ''read of closed file'')
             else None)
          else
            (if closed f then Some (ValueError ''I/O operation on closed file'')
             else if \<not> readable f then Some UnsupportedOperation
             else None))"

definition file_read :: "pyfile \<Rightarrow> (exn + readval) \<times> pyfile" where
  "file_read f =
     (case read_checks f of
        Some e \<Rightarrow> (Inl e, f)
      | None \<Rightarrow>
          (case stream f of
             ByteStream bs \<Rightarrow> (Inr (Bytes bs), f\<lparr>stream := ByteStream []\<rparr>)
           | TextStream t \<Rightarrow> (Inr (Text t), f\<lparr>stream := TextStream []\<rparr>)
           | FailingStream \<Rightarrow> (Inl OSError, f)))"

definition file_close :: "pyfile \<Rightarrow> pyfile" where
  "file_close f = f\<lparr>closed := True\<rparr>"

section \<open>class Request\<close>

text \<open>
  Calling a class makes a new instance of it, to which \<^verbatim>\<open>__init__\<close> assigns \<open>module\<close> and
  nothing else. \<open>Request_init\<close> is \<^verbatim>\<open>Request(module)\<close>; \<open>Subclass_init\<close> is \<^verbatim>\<open>C(module)\<close>
  for a class \<^verbatim>\<open>C\<close> a caller has declared as \<^verbatim>\<open>class C(Request): pass\<close>.
\<close>

definition new_instance :: "pyclass \<Rightarrow> pyval \<Rightarrow> world \<Rightarrow> ref \<times> world" where
  "new_instance c module' w =
     (fresh w,
      w\<lparr>objs := (objs w)(fresh w := \<lparr>cls = c, module = module', inst_data = None\<rparr>),
        fresh := Suc (fresh w)\<rparr>)"

definition Request_init :: "pyval \<Rightarrow> world \<Rightarrow> ref \<times> world" where
  "Request_init module' w = new_instance Request_class module' w"

definition Subclass_init :: "string \<Rightarrow> pyval \<Rightarrow> world \<Rightarrow> ref \<times> world" where
  "Subclass_init c module' w = new_instance (Request_subclass c) module' w"

definition setData :: "ref \<Rightarrow> string \<Rightarrow> pyval \<Rightarrow> world \<Rightarrow> world" where
  "setData self name value w =
     w\<lparr>dicts := (dicts w)(data_ref w self := AList.update name value (data_of w self))\<rparr>"

definition setDataFromFile :: "ref \<Rightarrow> string \<Rightarrow> ref \<Rightarrow> world \<Rightarrow> (exn + unit) \<times> world" where
  "setDataFromFile self name file w =
     (case file_read (files w file) of
        (Inl e, f') \<Rightarrow> (Inl e, w\<lparr>files := (files w)(file := f')\<rparr>)
      | (Inr content, f') \<Rightarrow>
          (let w1 = w\<lparr>files := (files w)(file := f')\<rparr> in
           case standard_b64encode content of
             Inl e \<Rightarrow> (Inl e, w1)
           | Inr encoded \<Rightarrow>
               (case decode_ascii encoded of
                  Inl e \<Rightarrow> (Inl e, w1)
                | Inr text \<Rightarrow>
                    (let w2 = setData self name (PStr text) w1 in
                     (Inr (), w2\<lparr>files := (files w2)(file := file_close (files w2 file))\<rparr>)))))"

definition removeData :: "ref \<Rightarrow> string \<Rightarrow> world \<Rightarrow> (exn + unit) \<times> world" where
  "removeData self name w =
     (if name \<in> fst ` set (data_of w self)
      then (Inr (), w\<lparr>dicts := (dicts w)(data_ref w self := AList.delete name (data_of w self))\<rparr>)
      else (Inl (KeyError name), w))"

definition clearData :: "ref \<Rightarrow> world \<Rightarrow> world" where
  "clearData self w = w\<lparr>dicts := (dicts w)(data_ref w self := [])\<rparr>"

section \<open>A base64 decoder, to read a stored field back\<close>

text \<open>
  The decoder of RFC 4648 for the standard alphabet, as a receiver of the field would
  run it: four letters give three bytes, and only the last group may be padded.
\<close>

fun index_of :: "'a \<Rightarrow> 'a list \<Rightarrow> nat option" where
  "index_of x [] = None"
| "index_of x (y # ys) = (if x = y then Some 0 else map_option Suc (index_of x ys))"

definition b64_value :: "char \<Rightarrow> byte option" where
  "b64_value c = map_option of_nat (index_of c b64_alphabet)"

definition b64decode_group :: "char \<Rightarrow> char \<Rightarrow> char \<Rightarrow> char \<Rightarrow> byte list option" where
  "b64decode_group c1 c2 c3 c4 =
     (case (b64_value c1, b64_value c2, b64_value c3, b64_value c4) of
        (Some v1, Some v2, Some v3, Some v4) \<Rightarrow>
          Some [push_bit 2 v1 OR drop_bit 4 v2,
                push_bit 4 (v2 AND 15) OR drop_bit 2 v3,
                push_bit 6 (v3 AND 3) OR v4]
      | _ \<Rightarrow> None)"

definition b64decode_last :: "char \<Rightarrow> char \<Rightarrow> char \<Rightarrow> char \<Rightarrow> byte list option" where
  "b64decode_last c1 c2 c3 c4 =
     (if c3 = CHR ''='' \<and> c4 = CHR ''='' then
        (case (b64_value c1, b64_value c2) of
           (Some v1, Some v2) \<Rightarrow> Some [push_bit 2 v1 OR drop_bit 4 v2]
         | _ \<Rightarrow> None)
      else if c4 = CHR ''='' then
        (case (b64_value c1, b64_value c2, b64_value c3) of
           (Some v1, Some v2, Some v3) \<Rightarrow>
             Some [push_bit 2 v1 OR drop_bit 4 v2, push_bit 4 (v2 AND 15) OR drop_bit 2 v3]
         | _ \<Rightarrow> None)
      else b64decode_group c1 c2 c3 c4)"

fun b64decode :: "string \<Rightarrow> byte list option" where
  "b64decode [] = Some []"
| "b64decode (c1 # c2 # c3 # c4 # rest) =
     (if rest = [] then b64decode_last c1 c2 c3 c4
      else case (b64decode_group c1 c2 c3 c4, b64decode rest) of
             (Some x, Some y) \<Rightarrow> Some (x @ y)
           | _ \<Rightarrow> None)"
| "b64decode _ = None"

section \<open>Sample states\<close>

text \<open>The state when the module has just been imported: the class dict is empty, nothing
  has been sent, no server is reachable.\<close>

definition world0 :: world where
  "world0 =
     \<lparr>dicts = (\<lambda>_. []),
      objs = (\<lambda>_. \<lparr>cls = Request_class, module = PNone, inst_data = None\<rparr>),
      fresh = 1,
      files = (\<lambda>_. \<lparr>stream = ByteStream [], readable = False, buffered = True,
                      closed = True\<rparr>),
      net = (\<lambda>_. Inl (RequestException ''ConnectionError'')),
      posts = []\<rparr>"

definition conn0 :: connection where
  "conn0 = Connection_init (PStr ''https://cloud.example'') (PInt 8443) (PStr ''s3cr3t'')"

text \<open>A server that answers every call with the given status and decoded body.\<close>

definition reply :: "int \<Rightarrow> pyval \<Rightarrow> http_response" where
  "reply sc body = \<lparr>r_status_code = sc, r_headers = [], r_json = Some body\<rparr>"

definition answering :: "int \<Rightarrow> pyval \<Rightarrow> world" where
  "answering sc body = world0\<lparr>net := (\<lambda>_. Inr (reply sc body))\<rparr>"

text \<open>The bodies \<^verbatim>\<open>{"error": {"code": 42, "message": "bad token"}}\<close>, the same with the code
  as the string \<^verbatim>\<open>"42"\<close>, and \<^verbatim>\<open>{"result": "ok"}\<close>.\<close>

definition bad_token :: pyval where
  "bad_token = PDict [(''error'', PDict [(''code'', PInt 42), (''message'', PStr ''bad token'')])]"

definition bad_token_str :: pyval where
  "bad_token_str =
     PDict [(''error'', PDict [(''code'', PStr ''42''), (''message'', PStr ''bad token'')])]"

definition ok_body :: pyval where
  "ok_body = PDict [(''result'', PStr ''ok'')]"

text \<open>The state after \<^verbatim>\<open>Request("demo")\<close>, the instance at reference 1, and that state with
  one open file handle, at reference 7: as \<^verbatim>\<open>open(path, "rb")\<close> or \<^verbatim>\<open>open(path)\<close> returns it
  (\<open>with_file\<close>), and as \<^verbatim>\<open>open(path, "wb")\<close> returns it (\<open>with_write_only_file\<close>).\<close>

definition world1 :: world where
  "world1 = snd (Request_init (PStr ''demo'') world0)"

definition with_file :: "stream \<Rightarrow> world" where
  "with_file s =
     world1\<lparr>files := (files world1)
       (7 := \<lparr>stream = s, readable = True, buffered = True, closed = False\<rparr>)\<rparr>"

definition with_write_only_file :: world where
  "with_write_only_file =
     world1\<lparr>files := (files world1)
       (7 := \<lparr>stream = ByteStream [], readable = False, buffered = True, closed = False\<rparr>)\<rparr>"

text \<open>A server that answers \<^verbatim>\<open>{"result": "ok"}\<close> with status 200, and an instance of the
  class \<^verbatim>\<open>class Upload(Request): pass\<close>, made by \<^verbatim>\<open>Upload("demo")\<close>, at reference 1.\<close>

definition with_upload :: world where
  "with_upload = snd (Subclass_init ''Upload'' (PStr ''demo'') (answering 200 ok_body))"

section \<open>Connection: what is sent\<close>

text \<open>
  C6. \<^verbatim>\<open>sendRequest(module, data)\<close> makes exactly one call of the transport, whatever comes
  back: the URL is \<^verbatim>\<open>str(url):str(port)/request/\<close>, the JSON body is the dict of
  \<open>token\<close>, \<open>module\<close> and \<open>data\<close>, in this order, the token being the Connection's and
  module and data the arguments as they were passed.
\<close>

theorem sendRequest_envelope:
  "posts (snd (sendRequest self md dt w)) =
     posts w @
     [\<lparr>p_url = py_str (url self) @ '':'' @ py_str (port self) @ ''/request/'',
       p_json = PDict [(''token'', token self), (''module'', md), (''data'', dt)],
       p_verify = verifySSL self, p_timeout = timeout self,
       p_auth = auth self, p_proxies = proxies self\<rparr>]"
  by (simp add: sendRequest_def Connection_request_def post_args_def Let_def
      split: sum.splits prod.splits)

text \<open>
  C8. \<^verbatim>\<open>sendCustomRequest(handler, data)\<close> makes exactly one call of the transport: the
  URL is \<^verbatim>\<open>str(url):str(port)/str(handler)/\<close> and the JSON body is the dict of \<open>token\<close>
  and \<open>data\<close>, which has no key \<open>module\<close>. The URL of \<^verbatim>\<open>sendRequest\<close> has the same
  shape with the handler \<^verbatim>\<open>request\<close>.
\<close>

theorem sendCustomRequest_envelope:
  "posts (snd (sendCustomRequest self handler dt w)) =
     posts w @
     [\<lparr>p_url = py_str (url self) @ '':'' @ py_str (port self) @ ''/'' @ py_str handler @ ''/'',
       p_json = PDict [(''token'', token self), (''data'', dt)],
       p_verify = verifySSL self, p_timeout = timeout self,
       p_auth = auth self, p_proxies = proxies self\<rparr>]
   \<and> py_contains (PDict [(''token'', token self), (''data'', dt)]) ''module'' = Inr False
   \<and> p_url (last (posts (snd (sendRequest self md dt w)))) =
       py_str (url self) @ '':'' @ py_str (port self) @ ''/'' @ py_str (PStr ''request'') @ ''/''"
  by (simp add: sendCustomRequest_def sendRequest_def Connection_request_def post_args_def Let_def
      split: sum.splits prod.splits)

text \<open>
  C4, as the code has it. \<^verbatim>\<open>sendPreparedRequest(x)\<close> for an \<open>x\<close> whose type is not exactly
  \<^verbatim>\<open>Request\<close>, be it a value of another type or an instance of a class derived from
  \<^verbatim>\<open>Request\<close>, raises ValueError, which is no CloudRunError, and leaves the state as it
  was: the transport has not been called. For an \<open>r\<close> whose type is exactly \<^verbatim>\<open>Request\<close>
  it is \<^verbatim>\<open>sendRequest(r.module, r.data)\<close>, result and state.
\<close>

theorem sendPreparedRequest_exact_type:
  "sendPreparedRequest self (Val v) w = (Inl (ValueError ''request has to be a Request object''), w)
   \<and> posts (snd (sendPreparedRequest self (Val v) w)) = posts w
   \<and> fst (sendPreparedRequest self (Val v) w) \<noteq> Inl (CloudRunError text)
   \<and> (cls (objs w r) \<noteq> Request_class \<longrightarrow>
        sendPreparedRequest self (Inst r) w
          = (Inl (ValueError ''request has to be a Request object''), w)
        \<and> posts (snd (sendPreparedRequest self (Inst r) w)) = posts w
        \<and> fst (sendPreparedRequest self (Inst r) w) \<noteq> Inl (CloudRunError text))
   \<and> (cls (objs w r) = Request_class \<longrightarrow>
        sendPreparedRequest self (Inst r) w
          = sendRequest self (module (objs w r)) (PDict (data_of w r)) w)"
  by (simp add: sendPreparedRequest_def)

theorem sendPreparedRequest_exact_type_witness:
  "(cls (objs with_upload 1) \<noteq> Request_class
    \<and> sendPreparedRequest conn0 (Inst 1) with_upload
        = (Inl (ValueError ''request has to be a Request object''), with_upload)
    \<and> posts (snd (sendPreparedRequest conn0 (Inst 1) with_upload)) = posts with_upload)
   \<and> (cls (objs world1 1) = Request_class
    \<and> sendPreparedRequest conn0 (Inst 1) world1
        = sendRequest conn0 (module (objs world1 1)) (PDict (data_of world1 1)) world1)"
proof -
  have sub: "cls (objs with_upload 1) \<noteq> Request_class"
    by (simp add: with_upload_def Subclass_init_def new_instance_def answering_def world0_def)
  have exact: "cls (objs world1 1) = Request_class"
    by (simp add: world1_def Request_init_def new_instance_def world0_def)
  show ?thesis
    using sendPreparedRequest_exact_type [of conn0 PNone with_upload "[]" 1]
      sendPreparedRequest_exact_type [of conn0 PNone world1 "[]" 1] sub exact
    by simp
qed

text \<open>
  C4 as stated fails for an instance of a class derived from \<^verbatim>\<open>Request\<close>, which is a
  \<^verbatim>\<open>Request\<close> instance: with \<^verbatim>\<open>class Upload(Request): pass\<close> and \<^verbatim>\<open>r = Upload("demo")\<close>,
  \<^verbatim>\<open>sendPreparedRequest(r)\<close> raises ValueError and sends nothing, while
  \<^verbatim>\<open>sendRequest(r.module, r.data)\<close> makes its call and returns a \<^verbatim>\<open>Response\<close>.
\<close>

theorem sendPreparedRequest_rejects_subclass:
  "cls (objs with_upload 1) = Request_subclass ''Upload''
   \<and> fst (sendPreparedRequest conn0 (Inst 1) with_upload)
       = Inl (ValueError ''request has to be a Request object'')
   \<and> posts (snd (sendPreparedRequest conn0 (Inst 1) with_upload)) = []
   \<and> fst (sendRequest conn0 (module (objs with_upload 1)) (PDict (data_of with_upload 1))
            with_upload)
       = Inr \<lparr>raw = reply 200 ok_body, response = ok_body, status_code = 200, headers = []\<rparr>
   \<and> length (posts (snd (sendRequest conn0 (module (objs with_upload 1))
                 (PDict (data_of with_upload 1)) with_upload))) = 1"
  by (simp add: sendPreparedRequest_def sendRequest_def Connection_request_def with_upload_def
      Subclass_init_def new_instance_def answering_def world0_def reply_def ok_body_def
      raise_for_status_def json_of_def Response_init_def data_of_def data_ref_def Let_def)

section \<open>Connection: how an answer is classified\<close>

text \<open>The public methods fail as \<^verbatim>\<open>__request\<close> fails.\<close>

lemma Connection_request_http_error:
  assumes "net w (post_args self handler payload) = Inr req"
    and "400 \<le> r_status_code req" "r_status_code req < 600"
  shows "fst (Connection_request self handler payload w) = Inl (HTTPError (r_status_code req))"
  using assms by (simp add: Connection_request_def raise_for_status_def Let_def)

lemma sendRequest_fails_with:
  assumes "fst (Connection_request self (PStr ''request'')
         (PDict [(''token'', token self), (''module'', md), (''data'', dt)]) w) = Inl e"
  shows "fst (sendRequest self md dt w) = Inl e"
proof -
  obtain r w' where "Connection_request self (PStr ''request'')
         (PDict [(''token'', token self), (''module'', md), (''data'', dt)]) w = (r, w')"
    by (cases "Connection_request self (PStr ''request'')
         (PDict [(''token'', token self), (''module'', md), (''data'', dt)]) w")
  with assms show ?thesis
    by (simp add: sendRequest_def)
qed

lemma sendCustomRequest_fails_with:
  assumes "fst (Connection_request self handler
         (PDict [(''token'', token self), (''data'', dt)]) w) = Inl e"
  shows "fst (sendCustomRequest self handler dt w) = Inl e"
proof -
  obtain r w' where "Connection_request self handler
         (PDict [(''token'', token self), (''data'', dt)]) w = (r, w')"
    by (cases "Connection_request self handler
         (PDict [(''token'', token self), (''data'', dt)]) w")
  with assms show ?thesis
    by (simp add: sendCustomRequest_def)
qed

text \<open>
  C5, as the code has it. When the transport returns a response with a status from 400
  to 599, \<^verbatim>\<open>raise_for_status\<close> raises HTTPError and the call fails with it, whatever the
  body is: the body is not decoded, no CloudRunError is raised, no \<^verbatim>\<open>Response\<close> is made.
  This holds for \<^verbatim>\<open>__request\<close>, \<^verbatim>\<open>sendRequest\<close> and \<^verbatim>\<open>sendCustomRequest\<close>.
\<close>

theorem http_error_status_fails_first:
  assumes "400 \<le> r_status_code req" "r_status_code req < 600"
  shows "(net w (post_args self handler payload) = Inr req \<longrightarrow>
           fst (Connection_request self handler payload w) = Inl (HTTPError (r_status_code req)))
    \<and> (net w (post_args self (PStr ''request'')
               (PDict [(''token'', token self), (''module'', md), (''data'', dt)])) = Inr req \<longrightarrow>
           fst (sendRequest self md dt w) = Inl (HTTPError (r_status_code req)))
    \<and> (net w (post_args self handler (PDict [(''token'', token self), (''data'', dt)])) = Inr req \<longrightarrow>
           fst (sendCustomRequest self handler dt w) = Inl (HTTPError (r_status_code req)))"
proof (intro conjI impI)
  assume "net w (post_args self handler payload) = Inr req"
  then show "fst (Connection_request self handler payload w) = Inl (HTTPError (r_status_code req))"
    using assms by (rule Connection_request_http_error)
next
  assume "net w (post_args self (PStr ''request'')
               (PDict [(''token'', token self), (''module'', md), (''data'', dt)])) = Inr req"
  then show "fst (sendRequest self md dt w) = Inl (HTTPError (r_status_code req))"
    using assms by (intro sendRequest_fails_with Connection_request_http_error)
next
  assume "net w (post_args self handler (PDict [(''token'', token self), (''data'', dt)])) = Inr req"
  then show "fst (sendCustomRequest self handler dt w) = Inl (HTTPError (r_status_code req))"
    using assms by (intro sendCustomRequest_fails_with Connection_request_http_error)
qed

theorem http_error_status_fails_first_witness:
  "(400::int) \<le> r_status_code (reply 404 bad_token) \<and> r_status_code (reply 404 bad_token) < 600
   \<and> net (answering 404 bad_token) (post_args conn0 (PStr ''status'') (PDict []))
       = Inr (reply 404 bad_token)
   \<and> fst (Connection_request conn0 (PStr ''status'') (PDict []) (answering 404 bad_token))
       = Inl (HTTPError 404)
   \<and> fst (sendRequest conn0 (PStr ''m'') (PDict []) (answering 404 bad_token)) = Inl (HTTPError 404)
   \<and> fst (sendCustomRequest conn0 (PStr ''status'') (PDict []) (answering 404 bad_token))
       = Inl (HTTPError 404)"
proof -
  have h1: "400 \<le> r_status_code (reply 404 bad_token)"
    by (simp add: reply_def)
  have h2: "r_status_code (reply 404 bad_token) < 600"
    by (simp add: reply_def)
  have n: "net (answering 404 bad_token) call = Inr (reply 404 bad_token)" for call
    by (simp add: answering_def)
  have s: "r_status_code (reply 404 bad_token) = 404"
    by (simp add: reply_def)
  show ?thesis
    using http_error_status_fails_first [OF h1 h2,
        of "answering 404 bad_token" conn0 "PStr ''status''" "PDict []" "PStr ''m''" "PDict []"]
      n
    by (simp add: s)
qed

text \<open>
  C5 as stated fails for a status that is neither 2xx nor an error class: with 304 the
  body is decoded, and the call raises CloudRunError on an error marker and returns a
  \<^verbatim>\<open>Response\<close> otherwise.
\<close>

theorem status_304_reaches_the_body:
  "fst (sendRequest conn0 (PStr ''m'') (PDict []) (answering 304 bad_token))
     = Inl (CloudRunError ''Error 42: bad token'')
   \<and> fst (sendRequest conn0 (PStr ''m'') (PDict []) (answering 304 ok_body))
     = Inr \<lparr>raw = reply 304 ok_body, response = ok_body, status_code = 304, headers = []\<rparr>"
  by (simp add: sendRequest_def Connection_request_def answering_def world0_def reply_def
      bad_token_def ok_body_def raise_for_status_def json_of_def error_text_def Response_init_def
      Let_def str_int_def digits.simps)

text \<open>
  The same with the status 300, which a server sends with a body and which the transport
  does not follow without a \<^verbatim>\<open>Location\<close> header.
\<close>

lemma status_300_reaches_the_body:
  "fst (sendRequest conn0 (PStr ''m'') (PDict []) (answering 300 bad_token))
     = Inl (CloudRunError ''Error 42: bad token'')
   \<and> fst (sendRequest conn0 (PStr ''m'') (PDict []) (answering 300 ok_body))
     = Inr \<lparr>raw = reply 300 ok_body, response = ok_body, status_code = 300, headers = []\<rparr>"
  by (simp add: sendRequest_def Connection_request_def answering_def world0_def reply_def
      bad_token_def ok_body_def raise_for_status_def json_of_def error_text_def Response_init_def
      Let_def str_int_def digits.simps)

text \<open>The error marker: the decoded body is a dict with the key \<open>error\<close>, whose value is
  a dict with the keys \<open>code\<close> and \<open>message\<close>.\<close>

lemma error_text_marker:
  assumes "map_of d ''error'' = Some (PDict e)" "map_of e ''code'' = Some c"
    "map_of e ''message'' = Some m"
  shows "error_text (PDict d) = Inr (''Error '' @ py_str c @ '': '' @ py_str m)"
  using assms by (simp add: error_text_def)

lemma map_of_Some_key: "map_of d k = Some v \<Longrightarrow> k \<in> fst ` set d"
  by (metis domI dom_map_of_conv_image_fst)

lemma Connection_request_marker:
  assumes "net w (post_args self handler payload) = Inr req"
    and "\<not> (400 \<le> r_status_code req \<and> r_status_code req < 600)"
    and "r_json req = Some (PDict d)"
    and "map_of d ''error'' = Some (PDict e)" "map_of e ''code'' = Some c"
    "map_of e ''message'' = Some m"
  shows "fst (Connection_request self handler payload w)
     = Inl (CloudRunError (''Error '' @ py_str c @ '': '' @ py_str m))"
  using assms(1-3) map_of_Some_key [OF assms(4)]
  by (simp add: Connection_request_def raise_for_status_def json_of_def Let_def
      error_text_marker [OF assms(4-6)])

text \<open>
  C2, as the code has it. When the status is no error status and the decoded body holds
  the error marker with code \<open>c\<close> and message \<open>m\<close>, the call fails with a CloudRunError
  whose one argument is the text \<^verbatim>\<open>"Error " + str(c) + ": " + str(m)\<close>, and no \<^verbatim>\<open>Response\<close>
  is made. This holds for \<^verbatim>\<open>__request\<close>, \<^verbatim>\<open>sendRequest\<close> and \<^verbatim>\<open>sendCustomRequest\<close>.
\<close>

theorem error_marker_raises_CloudRunError:
  assumes "\<not> (400 \<le> r_status_code req \<and> r_status_code req < 600)"
    and "r_json req = Some (PDict d)"
    and "map_of d ''error'' = Some (PDict e)" "map_of e ''code'' = Some c"
    "map_of e ''message'' = Some m"
  shows "(net w (post_args self handler payload) = Inr req \<longrightarrow>
           fst (Connection_request self handler payload w)
             = Inl (CloudRunError (''Error '' @ py_str c @ '': '' @ py_str m)))
    \<and> (net w (post_args self (PStr ''request'')
               (PDict [(''token'', token self), (''module'', md), (''data'', dt)])) = Inr req \<longrightarrow>
           fst (sendRequest self md dt w)
             = Inl (CloudRunError (''Error '' @ py_str c @ '': '' @ py_str m)))
    \<and> (net w (post_args self handler (PDict [(''token'', token self), (''data'', dt)])) = Inr req \<longrightarrow>
           fst (sendCustomRequest self handler dt w)
             = Inl (CloudRunError (''Error '' @ py_str c @ '': '' @ py_str m)))"
proof (intro conjI impI)
  assume "net w (post_args self handler payload) = Inr req"
  then show "fst (Connection_request self handler payload w)
      = Inl (CloudRunError (''Error '' @ py_str c @ '': '' @ py_str m))"
    using assms by (rule Connection_request_marker)
next
  assume "net w (post_args self (PStr ''request'')
               (PDict [(''token'', token self), (''module'', md), (''data'', dt)])) = Inr req"
  then show "fst (sendRequest self md dt w)
      = Inl (CloudRunError (''Error '' @ py_str c @ '': '' @ py_str m))"
    using assms by (intro sendRequest_fails_with Connection_request_marker)
next
  assume "net w (post_args self handler (PDict [(''token'', token self), (''data'', dt)])) = Inr req"
  then show "fst (sendCustomRequest self handler dt w)
      = Inl (CloudRunError (''Error '' @ py_str c @ '': '' @ py_str m))"
    using assms by (intro sendCustomRequest_fails_with Connection_request_marker)
qed

theorem error_marker_raises_CloudRunError_witness:
  "\<not> (400 \<le> r_status_code (reply 200 bad_token) \<and> r_status_code (reply 200 bad_token) < 600)
   \<and> r_json (reply 200 bad_token)
       = Some (PDict [(''error'', PDict [(''code'', PInt 42), (''message'', PStr ''bad token'')])])
   \<and> map_of [(''error'', PDict [(''code'', PInt 42), (''message'', PStr ''bad token'')])] ''error''
       = Some (PDict [(''code'', PInt 42), (''message'', PStr ''bad token'')])
   \<and> map_of [(''code'', PInt 42), (''message'', PStr ''bad token'')] ''code'' = Some (PInt 42)
   \<and> map_of [(''code'', PInt 42), (''message'', PStr ''bad token'')] ''message''
       = Some (PStr ''bad token'')
   \<and> net (answering 200 bad_token) (post_args conn0 (PStr ''status'') (PDict []))
       = Inr (reply 200 bad_token)
   \<and> fst (Connection_request conn0 (PStr ''status'') (PDict []) (answering 200 bad_token))
       = Inl (CloudRunError ''Error 42: bad token'')
   \<and> fst (sendRequest conn0 (PStr ''m'') (PDict []) (answering 200 bad_token))
       = Inl (CloudRunError ''Error 42: bad token'')
   \<and> fst (sendCustomRequest conn0 (PStr ''status'') (PDict []) (answering 200 bad_token))
       = Inl (CloudRunError ''Error 42: bad token'')"
proof -
  have h1: "\<not> (400 \<le> r_status_code (reply 200 bad_token) \<and> r_status_code (reply 200 bad_token) < 600)"
    by (simp add: reply_def)
  have h2: "r_json (reply 200 bad_token)
       = Some (PDict [(''error'', PDict [(''code'', PInt 42), (''message'', PStr ''bad token'')])])"
    by (simp add: reply_def bad_token_def)
  have h3: "map_of [(''error'', PDict [(''code'', PInt 42), (''message'', PStr ''bad token'')])] ''error''
       = Some (PDict [(''code'', PInt 42), (''message'', PStr ''bad token'')])"
    by simp
  have h4: "map_of [(''code'', PInt 42), (''message'', PStr ''bad token'')] ''code'' = Some (PInt 42)"
    by simp
  have h5: "map_of [(''code'', PInt 42), (''message'', PStr ''bad token'')] ''message''
       = Some (PStr ''bad token'')"
    by simp
  have n: "net (answering 200 bad_token) call = Inr (reply 200 bad_token)" for call
    by (simp add: answering_def)
  have t: "''Error '' @ py_str (PInt 42) @ '': '' @ py_str (PStr ''bad token'') = ''Error 42: bad token''"
    by (simp add: str_int_def digits.simps)
  show ?thesis
    using error_marker_raises_CloudRunError [OF h1 h2 h3 h4 h5,
        of "answering 200 bad_token" conn0 "PStr ''status''" "PDict []" "PStr ''m''" "PDict []"]
      h1 h2 h3 h4 h5 n
    by (simp only: t simp_thms)
qed

text \<open>
  C2 as stated fails: the exception keeps the text only. The integer code \<^verbatim>\<open>42\<close> and the
  string code \<^verbatim>\<open>"42"\<close> raise the same CloudRunError, so the code cannot be read back
  from it.
\<close>

theorem CloudRunError_holds_only_text:
  "fst (sendRequest conn0 (PStr ''m'') (PDict []) (answering 200 bad_token))
     = Inl (CloudRunError ''Error 42: bad token'')
   \<and> fst (sendRequest conn0 (PStr ''m'') (PDict []) (answering 200 bad_token_str))
     = Inl (CloudRunError ''Error 42: bad token'')
   \<and> PInt 42 \<noteq> PStr ''42''"
  by (simp add: sendRequest_def Connection_request_def answering_def world0_def reply_def
      bad_token_def bad_token_str_def raise_for_status_def json_of_def error_text_def Let_def
      str_int_def digits.simps)

section \<open>Request: the data map\<close>

text \<open>
  C9. Whatever the data map held, after \<^verbatim>\<open>clearData()\<close> and \<^verbatim>\<open>setData("x", 1)\<close> it is
  \<^verbatim>\<open>{"x": 1}\<close>; \<^verbatim>\<open>clearData\<close> changes no instance, so the module stays.
\<close>

theorem clearData_then_setData:
  "data_of (setData self ''x'' (PInt 1) (clearData self w)) self = [(''x'', PInt 1)]
   \<and> module (objs (clearData self w) self) = module (objs w self)
   \<and> objs (clearData self w) = objs w"
  by (simp add: setData_def clearData_def data_of_def data_ref_def)

text \<open>
  C10. \<^verbatim>\<open>removeData(name)\<close> with \<open>name\<close> absent from the data map raises KeyError and the
  state is as before; with \<open>name\<close> present it returns, the data map has lost \<open>name\<close> and
  kept every other field, and no instance has changed.
\<close>

theorem removeData_missing_or_present:
  "(name \<notin> fst ` set (data_of w self) \<longrightarrow>
      removeData self name w = (Inl (KeyError name), w))
   \<and> (name \<in> fst ` set (data_of w self) \<longrightarrow>
      fst (removeData self name w) = Inr ()
      \<and> map_of (data_of (snd (removeData self name w)) self)
          = (map_of (data_of w self))(name := None)
      \<and> objs (snd (removeData self name w)) = objs w)"
  by (simp add: removeData_def data_of_def data_ref_def AList.delete_conv')

theorem removeData_missing_or_present_witness:
  "(''b'' \<notin> fst ` set (data_of (setData 1 ''a'' (PInt 5) world1) 1)
    \<and> removeData 1 ''b'' (setData 1 ''a'' (PInt 5) world1)
        = (Inl (KeyError ''b''), setData 1 ''a'' (PInt 5) world1))
   \<and> (''a'' \<in> fst ` set (data_of (setData 1 ''a'' (PInt 5) world1) 1)
    \<and> fst (removeData 1 ''a'' (setData 1 ''a'' (PInt 5) world1)) = Inr ()
    \<and> map_of (data_of (snd (removeData 1 ''a'' (setData 1 ''a'' (PInt 5) world1))) 1)
        = (map_of (data_of (setData 1 ''a'' (PInt 5) world1) 1))(''a'' := None)
    \<and> data_of (snd (removeData 1 ''a'' (setData 1 ''a'' (PInt 5) world1))) 1 = [])"
proof -
  have d: "data_of (setData 1 ''a'' (PInt 5) world1) 1 = [(''a'', PInt 5)]"
    by (simp add: setData_def data_of_def data_ref_def world1_def Request_init_def new_instance_def world0_def)
  have e: "data_of (snd (removeData 1 ''a'' (setData 1 ''a'' (PInt 5) world1))) 1 = []"
    by (simp add: removeData_def setData_def data_of_def data_ref_def world1_def Request_init_def new_instance_def world0_def)
  show ?thesis
    using removeData_missing_or_present [of "''b''" "setData 1 ''a'' (PInt 5) world1" 1]
      removeData_missing_or_present [of "''a''" "setData 1 ''a'' (PInt 5) world1" 1] d e
    by simp
qed

text \<open>
  The data map of an instance made by \<^verbatim>\<open>Request(module)\<close> is the dict of the class: in
  every state, two instances made one after the other are different objects with one
  data map, and what \<^verbatim>\<open>setData\<close> stores through the first is read through the second
  and through every instance made later.
\<close>

lemma Request_init_data_is_class_dict:
  "(case Request_init m1 w of (r1, w1) \<Rightarrow>
    case Request_init m2 w1 of (r2, w2) \<Rightarrow>
      r1 \<noteq> r2
      \<and> data_ref w2 r1 = Request_data \<and> data_ref w2 r2 = Request_data
      \<and> data_of (setData r1 name v w2) r2 = AList.update name v (data_of w2 r2)
      \<and> map_of (data_of (setData r1 name v w2) r2) name = Some v
      \<and> (case Request_init m3 (setData r1 name v w2) of (r3, w3) \<Rightarrow>
           map_of (data_of w3 r3) name = Some v))"
  by (simp add: Request_init_def new_instance_def setData_def data_of_def data_ref_def AList.update_conv')

text \<open>
  C1, on the state of a fresh import: \<^verbatim>\<open>r1 = Request("a")\<close>, \<^verbatim>\<open>r2 = Request("b")\<close>, then
  \<^verbatim>\<open>r1.setData("k", 1)\<close>. The data map of \<open>r2\<close>, empty before, is \<^verbatim>\<open>{"k": 1}\<close>, and so is
  the data map of \<^verbatim>\<open>r3 = Request("c")\<close>, made afterwards.
\<close>

theorem Request_data_shared_at_import:
  "(case Request_init (PStr ''a'') world0 of (r1, w1) \<Rightarrow>
    case Request_init (PStr ''b'') w1 of (r2, w2) \<Rightarrow>
      r1 = 1 \<and> r2 = 2 \<and> data_of w2 r2 = []
      \<and> data_of (setData r1 ''k'' (PInt 1) w2) r2 = [(''k'', PInt 1)]
      \<and> (case Request_init (PStr ''c'') (setData r1 ''k'' (PInt 1) w2) of (r3, w3) \<Rightarrow>
           r3 = 3 \<and> data_of w3 r3 = [(''k'', PInt 1)]))"
  by (simp add: Request_init_def new_instance_def setData_def data_of_def data_ref_def world0_def)

section \<open>Request: a field from a file\<close>

subsection \<open>The alphabet\<close>

lemma index_of_nth:
  "distinct xs \<Longrightarrow> n < length xs \<Longrightarrow> index_of (xs ! n) xs = Some n"
proof (induction xs arbitrary: n)
  case Nil
  then show ?case by simp
next
  case (Cons x xs)
  show ?case
  proof (cases n)
    case 0
    then show ?thesis by simp
  next
    case (Suc m)
    with Cons.prems have "xs ! m \<in> set xs" "x \<notin> set xs" by auto
    then have "xs ! m \<noteq> x" by auto
    with Suc Cons show ?thesis by auto
  qed
qed

lemma b64_alphabet_distinct: "distinct b64_alphabet"
  by (simp add: b64_alphabet_def)

lemma b64_alphabet_length: "length b64_alphabet = 64"
  by (simp add: b64_alphabet_def)

lemma b64_alphabet_ascii: "\<forall>c \<in> set b64_alphabet. (of_char c :: nat) < 128 \<and> c \<noteq> CHR ''=''"
  by (simp add: b64_alphabet_def)

lemma unat_of_char: "unat (of_char c :: byte) = of_char c"
proof -
  have "(of_char c :: byte) = of_nat (of_char c)"
    by (simp add: of_nat_of_char)
  then have "unat (of_char c :: byte) = (of_char c :: nat) mod 256"
    by (simp add: unat_of_nat)
  then show ?thesis
    using nat_of_char_less_256 [of c] by simp
qed

lemma sextet_index: "i < 64 \<Longrightarrow> unat (i :: byte) < 64"
  by (simp add: word_less_nat_alt)

lemma letter_char: "ascii_char (b64_letter i) = b64_alphabet ! unat i"
  by (simp add: ascii_char_def b64_letter_def unat_of_char)

lemma b64_value_letter:
  assumes "i < 64"
  shows "b64_value (ascii_char (b64_letter i)) = Some i"
proof -
  have "unat i < length b64_alphabet"
    using assms by (simp add: b64_alphabet_length sextet_index)
  then have "index_of (b64_alphabet ! unat i) b64_alphabet = Some (unat i)"
    by (rule index_of_nth [OF b64_alphabet_distinct])
  then show ?thesis
    by (simp add: b64_value_def letter_char)
qed

lemma letter_in_alphabet: "i < 64 \<Longrightarrow> ascii_char (b64_letter i) \<in> set b64_alphabet"
  by (simp add: letter_char b64_alphabet_length sextet_index)

lemma letter_not_pad: "i < 64 \<Longrightarrow> ascii_char (b64_letter i) \<noteq> CHR ''=''"
  using b64_alphabet_ascii letter_in_alphabet by blast

lemma letter_ascii:
  assumes "i < 64"
  shows "unat (b64_letter i) < 128"
proof -
  have "b64_alphabet ! unat i \<in> set b64_alphabet"
    using assms by (simp add: b64_alphabet_length sextet_index)
  then have "(of_char (b64_alphabet ! unat i) :: nat) < 128"
    using b64_alphabet_ascii by blast
  then show ?thesis by (simp add: b64_letter_def unat_of_char)
qed

lemma pad_char: "ascii_char 61 = CHR ''=''"
  unfolding ascii_char_def by code_simp

lemma pad_ascii: "unat (61 :: byte) < 128"
  by simp

subsection \<open>Regrouping the bits\<close>

lemma byte_eqI:
  fixes a b :: byte
  assumes "bit a 0 = bit b 0" "bit a 1 = bit b 1" "bit a 2 = bit b 2" "bit a 3 = bit b 3"
    "bit a 4 = bit b 4" "bit a 5 = bit b 5" "bit a 6 = bit b 6" "bit a 7 = bit b 7"
  shows "a = b"
proof (rule bit_word_eqI)
  fix n
  assume "n < LENGTH(8)"
  then have "n \<in> {0, 1, 2, 3, 4, 5, 6, 7}"
    by simp arith
  with assms show "bit a n = bit b n"
    by auto
qed

lemma byte_high: "8 \<le> n \<Longrightarrow> \<not> bit (a :: byte) n"
  using bit_imp_le_length [of a n] by auto

lemma below_64: "(x :: byte) < 64 \<longleftrightarrow> x AND mask 6 = x"
  using mask_eq_iff_w2p [of 6 x] by (simp add: word_size)

text \<open>The sextets the encoder cuts out of a group are below 64.\<close>

lemma sextet_a: "drop_bit 2 (a :: byte) < 64"
  unfolding below_64 by (rule byte_eqI) (simp_all add: bit_simps byte_high)

lemma sextet_a_pad: "push_bit 4 ((a :: byte) AND 3) < 64"
  unfolding below_64 by (rule byte_eqI) (simp_all add: bit_simps byte_high)

lemma sextet_ab: "push_bit 4 ((a :: byte) AND 3) OR drop_bit 4 b < 64"
  unfolding below_64 by (rule byte_eqI) (simp_all add: bit_simps byte_high)

lemma sextet_b_pad: "push_bit 2 ((b :: byte) AND 15) < 64"
  unfolding below_64 by (rule byte_eqI) (simp_all add: bit_simps byte_high)

lemma sextet_bc: "push_bit 2 ((b :: byte) AND 15) OR drop_bit 6 c < 64"
  unfolding below_64 by (rule byte_eqI) (simp_all add: bit_simps byte_high)

lemma sextet_c: "(c :: byte) AND 63 < 64"
  unfolding below_64 by (rule byte_eqI) (simp_all add: bit_simps byte_high)

text \<open>Putting the sextets together again gives the bytes back.\<close>

lemma first_byte:
  "push_bit 2 (drop_bit 2 a) OR drop_bit 4 (push_bit 4 (a AND 3) OR drop_bit 4 b) = (a :: byte)"
  by (rule byte_eqI) (simp_all add: bit_simps)

lemma first_byte_pad:
  "push_bit 2 (drop_bit 2 a) OR drop_bit 4 (push_bit 4 (a AND 3)) = (a :: byte)"
  by (rule byte_eqI) (simp_all add: bit_simps)

lemma second_byte:
  "push_bit 4 ((push_bit 4 (a AND 3) OR drop_bit 4 b) AND 15)
     OR drop_bit 2 (push_bit 2 (b AND 15) OR drop_bit 6 c) = (b :: byte)"
  by (rule byte_eqI) (simp_all add: bit_simps)

lemma second_byte_pad:
  "push_bit 4 ((push_bit 4 (a AND 3) OR drop_bit 4 b) AND 15)
     OR drop_bit 2 (push_bit 2 (b AND 15)) = (b :: byte)"
  by (rule byte_eqI) (simp_all add: bit_simps)

lemma third_byte:
  "push_bit 6 ((push_bit 2 (b AND 15) OR drop_bit 6 c) AND 3) OR (c AND 63) = (c :: byte)"
  by (rule byte_eqI) (simp_all add: bit_simps)

subsection \<open>Decoding what was encoded\<close>

text \<open>Decoding one group of letters, for any sextets.\<close>

lemma b64decode_group_letters:
  assumes "s1 < 64" "s2 < 64" "s3 < 64" "s4 < 64"
  shows "b64decode_group (ascii_char (b64_letter s1)) (ascii_char (b64_letter s2))
           (ascii_char (b64_letter s3)) (ascii_char (b64_letter s4))
         = Some [push_bit 2 s1 OR drop_bit 4 s2,
                 push_bit 4 (s2 AND 15) OR drop_bit 2 s3,
                 push_bit 6 (s3 AND 3) OR s4]"
  using assms by (simp only: b64decode_group_def b64_value_letter prod.case option.case)

lemma b64decode_last_letters:
  assumes "s1 < 64" "s2 < 64" "s3 < 64" "s4 < 64"
  shows "b64decode_last (ascii_char (b64_letter s1)) (ascii_char (b64_letter s2))
           (ascii_char (b64_letter s3)) (ascii_char (b64_letter s4))
         = Some [push_bit 2 s1 OR drop_bit 4 s2,
                 push_bit 4 (s2 AND 15) OR drop_bit 2 s3,
                 push_bit 6 (s3 AND 3) OR s4]"
  using assms letter_not_pad [of s4]
  by (simp only: b64decode_last_def b64decode_group_letters simp_thms if_False)

lemma b64decode_last_pad1:
  assumes "s1 < 64" "s2 < 64" "s3 < 64"
  shows "b64decode_last (ascii_char (b64_letter s1)) (ascii_char (b64_letter s2))
           (ascii_char (b64_letter s3)) (CHR ''='')
         = Some [push_bit 2 s1 OR drop_bit 4 s2, push_bit 4 (s2 AND 15) OR drop_bit 2 s3]"
  using assms letter_not_pad [of s3]
  by (simp only: b64decode_last_def b64_value_letter prod.case option.case simp_thms if_False if_True)

lemma b64decode_last_pad2:
  assumes "s1 < 64" "s2 < 64"
  shows "b64decode_last (ascii_char (b64_letter s1)) (ascii_char (b64_letter s2))
           (CHR ''='') (CHR ''='')
         = Some [push_bit 2 s1 OR drop_bit 4 s2]"
  using assms
  by (simp only: b64decode_last_def b64_value_letter prod.case option.case simp_thms if_True)

lemma b64encode_bytes_Nil_iff: "b64encode_bytes bs = [] \<longleftrightarrow> bs = []"
  by (induction bs rule: b64encode_bytes.induct) simp_all

lemma b64decode_b64encode:
  "b64decode (map ascii_char (b64encode_bytes bs)) = Some bs"
proof (induction bs rule: b64encode_bytes.induct)
  case 1
  show ?case by simp
next
  case (2 a)
  have "b64decode (map ascii_char (b64encode_bytes [a])) =
      b64decode_last (ascii_char (b64_letter (drop_bit 2 a)))
        (ascii_char (b64_letter (push_bit 4 (a AND 3)))) (CHR ''='') (CHR ''='')"
    by (simp only: b64encode_bytes.simps list.map pad_char b64decode.simps simp_thms if_True)
  also have "\<dots> = Some [push_bit 2 (drop_bit 2 a) OR drop_bit 4 (push_bit 4 (a AND 3))]"
    by (rule b64decode_last_pad2 [OF sextet_a sextet_a_pad])
  also have "\<dots> = Some [a]"
    by (simp only: first_byte_pad)
  finally show ?case .
next
  case (3 a b)
  have "b64decode (map ascii_char (b64encode_bytes [a, b])) =
      b64decode_last (ascii_char (b64_letter (drop_bit 2 a)))
        (ascii_char (b64_letter (push_bit 4 (a AND 3) OR drop_bit 4 b)))
        (ascii_char (b64_letter (push_bit 2 (b AND 15)))) (CHR ''='')"
    by (simp only: b64encode_bytes.simps list.map pad_char b64decode.simps simp_thms if_True)
  also have "\<dots> = Some [push_bit 2 (drop_bit 2 a) OR drop_bit 4 (push_bit 4 (a AND 3) OR drop_bit 4 b),
      push_bit 4 ((push_bit 4 (a AND 3) OR drop_bit 4 b) AND 15) OR drop_bit 2 (push_bit 2 (b AND 15))]"
    by (rule b64decode_last_pad1 [OF sextet_a sextet_ab sextet_b_pad])
  also have "\<dots> = Some [a, b]"
    by (simp only: first_byte second_byte_pad)
  finally show ?case .
next
  case (4 a b c rest)
  let ?c1 = "ascii_char (b64_letter (drop_bit 2 a))"
  let ?c2 = "ascii_char (b64_letter (push_bit 4 (a AND 3) OR drop_bit 4 b))"
  let ?c3 = "ascii_char (b64_letter (push_bit 2 (b AND 15) OR drop_bit 6 c))"
  let ?c4 = "ascii_char (b64_letter (c AND 63))"
  let ?tl = "map ascii_char (b64encode_bytes rest)"
  have enc: "map ascii_char (b64encode_bytes (a # b # c # rest)) = ?c1 # ?c2 # ?c3 # ?c4 # ?tl"
    by (simp only: b64encode_bytes.simps list.map map_append append.simps)
  have grp: "Some [push_bit 2 (drop_bit 2 a) OR drop_bit 4 (push_bit 4 (a AND 3) OR drop_bit 4 b),
      push_bit 4 ((push_bit 4 (a AND 3) OR drop_bit 4 b) AND 15)
        OR drop_bit 2 (push_bit 2 (b AND 15) OR drop_bit 6 c),
      push_bit 6 ((push_bit 2 (b AND 15) OR drop_bit 6 c) AND 3) OR (c AND 63)] = Some [a, b, c]"
    by (simp only: first_byte second_byte third_byte)
  show ?case
  proof (cases "rest = []")
    case True
    then have "?tl = []" by simp
    then have "b64decode (?c1 # ?c2 # ?c3 # ?c4 # ?tl) = b64decode_last ?c1 ?c2 ?c3 ?c4"
      by (simp only: b64decode.simps simp_thms if_True)
    also have "\<dots> = Some [a, b, c]"
      by (simp only: b64decode_last_letters [OF sextet_a sextet_ab sextet_bc sextet_c] grp)
    finally have "b64decode (map ascii_char (b64encode_bytes (a # b # c # rest))) = Some [a, b, c]"
      by (simp only: enc)
    then show ?thesis
      by (simp only: True)
  next
    case False
    then have "?tl \<noteq> []" by (simp add: b64encode_bytes_Nil_iff)
    then have "b64decode (?c1 # ?c2 # ?c3 # ?c4 # ?tl) =
        (case (b64decode_group ?c1 ?c2 ?c3 ?c4, b64decode ?tl) of
           (Some x, Some y) \<Rightarrow> Some (x @ y) | _ \<Rightarrow> None)"
      by (simp only: b64decode.simps if_False)
    also have "\<dots> = Some ([a, b, c] @ rest)"
      by (simp only: b64decode_group_letters [OF sextet_a sextet_ab sextet_bc sextet_c] grp
          "4.IH" prod.case option.case)
    finally show ?thesis
      by (simp only: enc append.simps)
  qed
qed

lemma b64encode_bytes_ascii: "b \<in> set (b64encode_bytes bs) \<Longrightarrow> unat b < 128"
proof (induction bs rule: b64encode_bytes.induct)
  case 1
  then show ?case by simp
next
  case (2 a)
  then show ?case
    using letter_ascii [OF sextet_a, of a] letter_ascii [OF sextet_a_pad, of a] pad_ascii
    by (auto simp only: b64encode_bytes.simps set_simps insert_iff empty_iff)
next
  case (3 a b)
  then show ?case
    using letter_ascii [OF sextet_a, of a] letter_ascii [OF sextet_ab, of a b]
      letter_ascii [OF sextet_b_pad, of b] pad_ascii
    by (auto simp only: b64encode_bytes.simps set_simps insert_iff empty_iff)
next
  case (4 a b c rest)
  then show ?case
    using letter_ascii [OF sextet_a, of a] letter_ascii [OF sextet_ab, of a b]
      letter_ascii [OF sextet_bc, of b c] letter_ascii [OF sextet_c, of c]
    by (auto simp only: b64encode_bytes.simps set_simps set_append Un_iff insert_iff empty_iff)
qed

lemma decode_ascii_b64encode:
  "decode_ascii (b64encode_bytes bs) = Inr (map ascii_char (b64encode_bytes bs))"
  using b64encode_bytes_ascii [of _ bs] by (fastforce simp add: decode_ascii_def)

lemma b64encode_bytes_letters:
  "b \<in> set (b64encode_bytes bs) \<Longrightarrow> ascii_char b \<in> set b64_alphabet \<union> {CHR ''=''}"
proof (induction bs rule: b64encode_bytes.induct)
  case 1
  then show ?case by simp
next
  case (2 a)
  then show ?case
    using letter_in_alphabet [OF sextet_a, of a] letter_in_alphabet [OF sextet_a_pad, of a] pad_char
    by (auto simp only: b64encode_bytes.simps set_simps insert_iff empty_iff Un_iff)
next
  case (3 a b)
  then show ?case
    using letter_in_alphabet [OF sextet_a, of a] letter_in_alphabet [OF sextet_ab, of a b]
      letter_in_alphabet [OF sextet_b_pad, of b] pad_char
    by (auto simp only: b64encode_bytes.simps set_simps insert_iff empty_iff Un_iff)
next
  case (4 a b c rest)
  then show ?case
    using letter_in_alphabet [OF sextet_a, of a] letter_in_alphabet [OF sextet_ab, of a b]
      letter_in_alphabet [OF sextet_bc, of b c] letter_in_alphabet [OF sextet_c, of c]
    by (auto simp only: b64encode_bytes.simps set_simps set_append Un_iff insert_iff empty_iff)
qed

subsection \<open>setDataFromFile\<close>

lemma file_read_bytes:
  "\<not> closed f \<Longrightarrow> readable f \<Longrightarrow> stream f = ByteStream B \<Longrightarrow>
   file_read f = (Inr (Bytes B), f\<lparr>stream := ByteStream []\<rparr>)"
  by (simp add: file_read_def read_checks_def)

lemma setDataFromFile_bytes:
  assumes "\<not> closed (files w file)" "readable (files w file)" "stream (files w file) = ByteStream B"
  shows "setDataFromFile self name file w =
     (Inr (),
      w\<lparr>dicts := (dicts w)(data_ref w self :=
            AList.update name (PStr (map ascii_char (b64encode_bytes B))) (data_of w self)),
        files := (files w)(file := (files w file)\<lparr>stream := ByteStream [], closed := True\<rparr>)\<rparr>)"
  using assms
  by (simp add: setDataFromFile_def file_read_bytes standard_b64encode_def decode_ascii_b64encode
      setData_def file_close_def data_of_def data_ref_def Let_def)

text \<open>
  C7. For an open, readable handle in binary mode with the content \<open>B\<close> from its
  position on, \<^verbatim>\<open>setDataFromFile(name, file)\<close> returns and the field \<open>name\<close> holds a string
  of letters of the standard alphabet and \<^verbatim>\<open>=\<close> that the base64 decoder turns back into
  \<open>B\<close>.
\<close>

theorem setDataFromFile_roundtrip:
  assumes "\<not> closed (files w file)" "readable (files w file)"
    and "stream (files w file) = ByteStream B"
  shows "fst (setDataFromFile self name file w) = Inr ()
    \<and> (\<exists>text. map_of (data_of (snd (setDataFromFile self name file w)) self) name = Some (PStr text)
          \<and> b64decode text = Some B
          \<and> set text \<subseteq> set b64_alphabet \<union> {CHR ''=''})"
proof -
  let ?text = "map ascii_char (b64encode_bytes B)"
  have "map_of (data_of (snd (setDataFromFile self name file w)) self) name = Some (PStr ?text)"
    by (simp add: setDataFromFile_bytes [OF assms] data_of_def data_ref_def AList.update_conv')
  moreover have "b64decode ?text = Some B"
    by (rule b64decode_b64encode)
  moreover have "set ?text \<subseteq> set b64_alphabet \<union> {CHR ''=''}"
    using b64encode_bytes_letters [of _ B] by auto
  moreover have "fst (setDataFromFile self name file w) = Inr ()"
    by (simp add: setDataFromFile_bytes [OF assms])
  ultimately show ?thesis by blast
qed

theorem setDataFromFile_roundtrip_witness:
  "\<not> closed (files (with_file (ByteStream [77, 97, 110, 255])) 7)
   \<and> readable (files (with_file (ByteStream [77, 97, 110, 255])) 7)
   \<and> stream (files (with_file (ByteStream [77, 97, 110, 255])) 7) = ByteStream [77, 97, 110, 255]
   \<and> fst (setDataFromFile 1 ''f'' 7 (with_file (ByteStream [77, 97, 110, 255]))) = Inr ()
   \<and> (\<exists>text. map_of (data_of (snd (setDataFromFile 1 ''f'' 7
                  (with_file (ByteStream [77, 97, 110, 255])))) 1) ''f'' = Some (PStr text)
          \<and> b64decode text = Some [77, 97, 110, 255]
          \<and> set text \<subseteq> set b64_alphabet \<union> {CHR ''=''})"
proof -
  have h1: "\<not> closed (files (with_file (ByteStream [77, 97, 110, 255])) 7)"
    by (simp add: with_file_def)
  have h2: "readable (files (with_file (ByteStream [77, 97, 110, 255])) 7)"
    by (simp add: with_file_def)
  have h3: "stream (files (with_file (ByteStream [77, 97, 110, 255])) 7)
      = ByteStream [77, 97, 110, 255]"
    by (simp add: with_file_def)
  show ?thesis
    using setDataFromFile_roundtrip [OF h1 h2 h3, of 1 "''f''"] h1 h2 h3
    by simp
qed

lemma setDataFromFile_example:
  "data_of (snd (setDataFromFile 1 ''f'' 7 (with_file (ByteStream [77, 97, 110, 255])))) 1
     = [(''f'', PStr ''TWFu/w=='')]"
proof -
  have "map ascii_char (b64encode_bytes [77, 97, 110, 255]) = ''TWFu/w==''"
    unfolding ascii_char_def by code_simp
  then show ?thesis
    by (simp add: setDataFromFile_bytes with_file_def data_of_def data_ref_def world1_def
        Request_init_def new_instance_def world0_def)
qed

text \<open>
  The success path: when \<^verbatim>\<open>setDataFromFile\<close> returns, \<^verbatim>\<open>file.close()\<close> has run and the handle
  is closed. It returns exactly for an open, readable handle in binary mode whose device
  does not fail; in every other case it raises, before the assignment and before
  \<^verbatim>\<open>file.close()\<close>, so that no dict has changed and the handle is closed only if it was
  before the call.
\<close>

lemma setDataFromFile_closes_on_success:
  "(fst (setDataFromFile self name file w) = Inr () \<longrightarrow>
      closed (files (snd (setDataFromFile self name file w)) file))
   \<and> (fst (setDataFromFile self name file w) \<noteq> Inr () \<longrightarrow>
      closed (files (snd (setDataFromFile self name file w)) file) = closed (files w file)
      \<and> dicts (snd (setDataFromFile self name file w)) = dicts w)
   \<and> (fst (setDataFromFile self name file w) = Inr () \<longleftrightarrow>
      \<not> closed (files w file) \<and> readable (files w file)
      \<and> (\<exists>B. stream (files w file) = ByteStream B))"
  by (cases "stream (files w file)")
    (auto simp add: setDataFromFile_def file_read_def read_checks_def standard_b64encode_def
      decode_ascii_b64encode setData_def file_close_def Let_def)

text \<open>
  C3, on the failure paths. The claim has the handle closed when the call returns, also
  when it raises; the code reaches \<^verbatim>\<open>file.close()\<close> only after the assignment. With a
  binary handle opened for writing (\<^verbatim>\<open>open(path, "wb")\<close>) \<^verbatim>\<open>read\<close> raises
  UnsupportedOperation, with a failing device it raises OSError, with a handle in text
  mode the encoder raises TypeError: each time the handle, open before the call, is
  open after it.
\<close>

theorem setDataFromFile_leaves_handle_open:
  "\<not> closed (files with_write_only_file 7)
   \<and> fst (setDataFromFile 1 ''f'' 7 with_write_only_file) = Inl UnsupportedOperation
   \<and> \<not> closed (files (snd (setDataFromFile 1 ''f'' 7 with_write_only_file)) 7)
   \<and> \<not> closed (files (with_file FailingStream) 7)
   \<and> fst (setDataFromFile 1 ''f'' 7 (with_file FailingStream)) = Inl OSError
   \<and> \<not> closed (files (snd (setDataFromFile 1 ''f'' 7 (with_file FailingStream))) 7)
   \<and> \<not> closed (files (with_file (TextStream ''abc'')) 7)
   \<and> fst (setDataFromFile 1 ''f'' 7 (with_file (TextStream ''abc''))) = Inl TypeError
   \<and> \<not> closed (files (snd (setDataFromFile 1 ''f'' 7 (with_file (TextStream ''abc'')))) 7)"
  by (simp add: setDataFromFile_def file_read_def read_checks_def standard_b64encode_def
      with_file_def with_write_only_file_def world1_def Request_init_def new_instance_def
      world0_def)

end
